theory Spec2Isabelle
  imports Complex_Main
begin

section \<open>Python values used by the repository\<close>

text \<open>
  Exceptions are values. Every constructor of \<open>py_exception\<close> stands for a subclass of
  Python's \<open>Exception\<close>, the class that the handlers of the repository catch
  (\<open>except Exception\<close>); the argument is the message that \<open>str(e)\<close> returns.
  \<open>OtherException\<close> covers what the collaborators raise (a subprocess timeout, a
  missing executable, an SDK failure).
\<close>

datatype py_exception =
    TypeError string
  | ValueError string
  | RuntimeError string
  | AttributeError string
  | IndexError string
  | OtherException string

fun str_exc :: "py_exception \<Rightarrow> string" where
  "str_exc (TypeError m) = m"
| "str_exc (ValueError m) = m"
| "str_exc (RuntimeError m) = m"
| "str_exc (AttributeError m) = m"
| "str_exc (IndexError m) = m"
| "str_exc (OtherException m) = m"

text \<open>
  What a statement can raise: an instance of \<open>Exception\<close> (\<open>Exc\<close>), or one of the
  exceptions that derive from \<open>BaseException\<close> only, which \<open>except Exception\<close> does
  not catch.
\<close>

datatype py_raise =
    Exc py_exception
  | KeyboardInterrupt
  | SystemExit string
  | GeneratorExit

text \<open>An operation on a mutable object: it returns a value or raises, and leaves a state.\<close>

type_synonym ('a, 's) op_result = "(py_raise + 'a) \<times> 's"

definition then_do ::
  "('a, 's) op_result \<Rightarrow> ('a \<Rightarrow> 's \<Rightarrow> ('b, 's) op_result) \<Rightarrow> ('b, 's) op_result" where
  "then_do r f = (case r of (Inl e, s) \<Rightarrow> (Inl e, s) | (Inr v, s) \<Rightarrow> f v s)"

section \<open>custom\_agent.py: the device contract and the task executor\<close>

text \<open>
  \<open>DeviceController\<close>: the operations of the contract that return a success flag. The
  controller object's own state is the type \<open>'d\<close>; an operation may raise.
\<close>

record 'd DeviceController =
  click :: "int \<Rightarrow> int \<Rightarrow> 'd \<Rightarrow> (bool, 'd) op_result"
  swipe :: "int \<Rightarrow> int \<Rightarrow> int \<Rightarrow> int \<Rightarrow> int \<Rightarrow> 'd \<Rightarrow> (bool, 'd) op_result"
  type_text :: "string \<Rightarrow> 'd \<Rightarrow> (bool, 'd) op_result"
  press_key :: "string \<Rightarrow> 'd \<Rightarrow> (bool, 'd) op_result"

text \<open>
  \<open>MockDeviceController\<close>: every operation logs what it was asked to do and returns
  \<open>True\<close>. Its state is the list of logged operations.
\<close>

datatype device_op =
    Click int int
  | Swipe int int int int int
  | TypeText string
  | PressKey string

definition MockDeviceController :: "device_op list DeviceController" where
  "MockDeviceController =
     \<lparr> click = (\<lambda>x y log. (Inr True, log @ [Click x y])),
       swipe = (\<lambda>sx sy ex ey duration log. (Inr True, log @ [Swipe sx sy ex ey duration])),
       type_text = (\<lambda>text log. (Inr True, log @ [TypeText text])),
       press_key = (\<lambda>key log. (Inr True, log @ [PressKey key])) \<rparr>"

text \<open>
  \<open>time.sleep(seconds)\<close>: it returns, or it is interrupted and raises (a
  \<open>KeyboardInterrupt\<close> from the terminal).
\<close>

type_synonym 'd sleeper = "int \<Rightarrow> 'd \<Rightarrow> (unit, 'd) op_result"

definition quiet_sleep :: "'d sleeper" where
  "quiet_sleep seconds dev = (Inr (), dev)"

definition interrupted_sleep :: "'d sleeper" where
  "interrupted_sleep seconds dev = (Inl KeyboardInterrupt, dev)"

record task_result =
  task_name :: string
  success :: bool
  execution_time :: real
  error_message :: "string option"
  timestamp :: real

record 'd TaskExecutor =
  device_controller :: "'d DeviceController"
  task_history :: "task_result list"

definition TaskExecutor_init :: "'d DeviceController \<Rightarrow> 'd TaskExecutor" where
  "TaskExecutor_init dc = \<lparr> device_controller = dc, task_history = [] \<rparr>"

text \<open>
  The handlers (\<open>_execute_recipe_task\<close>, \<open>_execute_calendar_task\<close>,
  \<open>_execute_generic_task\<close> in the source; an Isabelle name cannot start with an
  underscore). The return values of the controller calls are dropped, as in the source;
  a raise in a controller call or in a \<open>time.sleep(1)\<close> ends the handler.
\<close>

definition execute_recipe_task ::
  "'d TaskExecutor \<Rightarrow> 'd sleeper \<Rightarrow> 'p \<Rightarrow> 'd \<Rightarrow> (bool, 'd) op_result" where
  "execute_recipe_task self sleep params dev =
     then_do (click (device_controller self) 500 1200 dev) (\<lambda>_ dev1.
     then_do (sleep 1 dev1) (\<lambda>_ dev2.
     then_do (type_text (device_controller self) ''Test Recipe'' dev2) (\<lambda>_ dev3.
     then_do (sleep 1 dev3) (\<lambda>_ dev4.
     then_do (click (device_controller self) 500 1400 dev4) (\<lambda>_ dev5.
     (Inr True, dev5))))))"

definition execute_calendar_task ::
  "'d TaskExecutor \<Rightarrow> 'd sleeper \<Rightarrow> 'p \<Rightarrow> 'd \<Rightarrow> (bool, 'd) op_result" where
  "execute_calendar_task self sleep params dev =
     then_do (click (device_controller self) 500 1200 dev) (\<lambda>_ dev1.
     then_do (sleep 1 dev1) (\<lambda>_ dev2.
     then_do (type_text (device_controller self) ''Test Event'' dev2) (\<lambda>_ dev3.
     then_do (sleep 1 dev3) (\<lambda>_ dev4.
     then_do (click (device_controller self) 500 1400 dev4) (\<lambda>_ dev5.
     (Inr True, dev5))))))"

definition execute_generic_task ::
  "'d TaskExecutor \<Rightarrow> string \<Rightarrow> 'p \<Rightarrow> 'd \<Rightarrow> (bool, 'd) op_result" where
  "execute_generic_task self name params dev = (Inr True, dev)"

text \<open>The body of the \<open>try\<close> block of \<open>execute_task\<close>: dispatch on the exact task name.\<close>

definition dispatch_task ::
  "'d TaskExecutor \<Rightarrow> 'd sleeper \<Rightarrow> string \<Rightarrow> 'p \<Rightarrow> 'd \<Rightarrow> (bool, 'd) op_result" where
  "dispatch_task self sleep name params dev =
     (if name = ''RecipeAddMultipleRecipes'' then execute_recipe_task self sleep params dev
      else if name = ''SimpleCalendarAddOneEvent'' then execute_calendar_task self sleep params dev
      else execute_generic_task self name params dev)"

text \<open>
  The statements of \<open>execute_task\<close> after the \<open>try\<close>: the result is built, appended to
  the history and returned. \<open>now_start\<close> and \<open>now_end\<close> are the two readings of
  \<open>time.time()\<close>.
\<close>

definition record_result ::
  "'d TaskExecutor \<Rightarrow> string \<Rightarrow> bool \<Rightarrow> string option \<Rightarrow> real \<Rightarrow> real
     \<Rightarrow> task_result \<times> 'd TaskExecutor" where
  "record_result self name succ err now_start now_end =
     (let result = \<lparr> task_name = name, success = succ,
                     execution_time = now_end - now_start,
                     error_message = err, timestamp = now_start \<rparr>
      in (result, self\<lparr> task_history := task_history self @ [result] \<rparr>))"

text \<open>
  \<open>execute_task\<close>. An \<open>Exception\<close> raised in the \<open>try\<close> block is caught and its
  \<open>str\<close> becomes the error message, with \<open>success\<close> still \<open>False\<close>. Any other raise
  passes the handler: it leaves \<open>execute_task\<close>, and the statements that build and
  append the result do not run. The function returns the result or the raise that
  escaped, the executor, and the device state the handler left.
\<close>

definition execute_task ::
  "'d TaskExecutor \<Rightarrow> 'd sleeper \<Rightarrow> string \<Rightarrow> 'p \<Rightarrow> real \<Rightarrow> real \<Rightarrow> 'd
     \<Rightarrow> (py_raise + task_result) \<times> 'd TaskExecutor \<times> 'd" where
  "execute_task self sleep name params now_start now_end dev =
     (case dispatch_task self sleep name params dev of
        (Inr b, dev') \<Rightarrow>
          (case record_result self name b None now_start now_end of
             (result, self') \<Rightarrow> (Inr result, self', dev'))
      | (Inl (Exc e), dev') \<Rightarrow>
          (case record_result self name False (Some (str_exc e)) now_start now_end of
             (result, self') \<Rightarrow> (Inr result, self', dev'))
      | (Inl raised, dev') \<Rightarrow> (Inl raised, self, dev'))"

text \<open>
  A run of the executor: one \<open>execute_task\<close> per call, in order, each on the
  executor and the device state the previous call left (a caller that goes on after a
  call that raised). It returns the outcome of every call, in call order.
\<close>

type_synonym 'p task_call = "string \<times> 'p \<times> real \<times> real"

fun execute_tasks ::
  "'d TaskExecutor \<Rightarrow> 'd sleeper \<Rightarrow> 'p task_call list \<Rightarrow> 'd
     \<Rightarrow> (py_raise + task_result) list \<times> 'd TaskExecutor \<times> 'd" where
  "execute_tasks self sleep [] dev = ([], self, dev)"
| "execute_tasks self sleep ((name, params, now_start, now_end) # calls) dev =
     (case execute_task self sleep name params now_start now_end dev of
        (outcome, self', dev') \<Rightarrow>
          (case execute_tasks self' sleep calls dev' of
             (outcomes, self'', dev'') \<Rightarrow> (outcome # outcomes, self'', dev'')))"

text \<open>The results of the calls of a run that returned.\<close>

fun returned :: "(py_raise + task_result) list \<Rightarrow> task_result list" where
  "returned [] = []"
| "returned (Inl x # outcomes) = returned outcomes"
| "returned (Inr r # outcomes) = r # returned outcomes"

text \<open>A controller whose \<open>type_text\<close> raises, and whose other operations log.\<close>

definition FailingTypeController :: "device_op list DeviceController" where
  "FailingTypeController =
     MockDeviceController
       \<lparr> type_text := (\<lambda>text log. (Inl (Exc (OtherException ''input not focused'')), log)) \<rparr>"

section \<open>Python string operations\<close>

text \<open>
  A Python \<open>str\<close> is modelled as a list of characters with code points below 256.
  \<open>is_space\<close> is \<open>str.isspace\<close> on one character of that range, \<open>strip\<close> is
  \<open>s.strip()\<close>, \<open>split_char c s\<close> is \<open>s.split(c)\<close> for a one-character separator,
  \<open>split_str sep s\<close> is \<open>s.split(sep)\<close> for a non-empty separator, \<open>contains sub s\<close>
  is \<open>sub in s\<close>, \<open>lower\<close> is \<open>s.lower()\<close>, \<open>replace_char a b s\<close> is
  \<open>s.replace(a, b)\<close> for one-character strings.
\<close>

abbreviation tab :: char where "tab \<equiv> CHR 0x09"
abbreviation nl :: char where "nl \<equiv> CHR 0x0A"

definition whitespace_chars :: "char list" where
  "whitespace_chars =
     [CHR 0x09, CHR 0x0A, CHR 0x0B, CHR 0x0C, CHR 0x0D, CHR 0x1C, CHR 0x1D, CHR 0x1E,
      CHR 0x1F, CHR 0x20, CHR 0x85, CHR 0xA0]"

definition is_space :: "char \<Rightarrow> bool" where
  "is_space c = (c \<in> set whitespace_chars)"

definition strip :: "string \<Rightarrow> string" where
  "strip s = rev (dropWhile is_space (rev (dropWhile is_space s)))"

fun split_char :: "char \<Rightarrow> string \<Rightarrow> string list" where
  "split_char c [] = [[]]"
| "split_char c (x # xs) =
     (if x = c then [] # split_char c xs
      else (case split_char c xs of
              [] \<Rightarrow> [[x]]
            | f # fs \<Rightarrow> (x # f) # fs))"

definition startswith :: "string \<Rightarrow> string \<Rightarrow> bool" where
  "startswith s p = (take (length p) s = p)"

fun contains :: "string \<Rightarrow> string \<Rightarrow> bool" where
  "contains sub [] = (sub = [])"
| "contains sub (x # xs) = (startswith (x # xs) sub \<or> contains sub xs)"

fun split_str :: "string \<Rightarrow> string \<Rightarrow> string list" where
  "split_str sep [] = [[]]"
| "split_str sep (x # xs) =
     (if startswith (x # xs) sep then [] # split_str sep (drop (length sep - 1) xs)
      else (case split_str sep xs of
              [] \<Rightarrow> [[x]]
            | f # fs \<Rightarrow> (x # f) # fs))"

definition lower_char :: "char \<Rightarrow> char" where
  "lower_char c =
     (let n = (of_char c :: nat)
      in if (65 \<le> n \<and> n \<le> 90) \<or> (192 \<le> n \<and> n \<le> 222 \<and> n \<noteq> 215)
         then char_of (n + 32) else c)"

definition lower :: "string \<Rightarrow> string" where
  "lower s = map lower_char s"

definition replace_char :: "char \<Rightarrow> char \<Rightarrow> string \<Rightarrow> string" where
  "replace_char a b s = map (\<lambda>c. if c = a then b else c) s"

text \<open>\<open>str(n)\<close> for an integer: decimal digits, with a minus sign when negative.\<close>

definition digit_char :: "nat \<Rightarrow> char" where
  "digit_char d = char_of (48 + d)"

function str_nat :: "nat \<Rightarrow> string" where
  "str_nat n = (if n < 10 then [digit_char n] else str_nat (n div 10) @ [digit_char (n mod 10)])"
  by pat_completeness auto
termination
  by (relation "measure id") auto

declare str_nat.simps [simp del]

definition str_int :: "int \<Rightarrow> string" where
  "str_int i = (if i < 0 then CHR ''-'' # str_nat (nat (- i)) else str_nat (nat i))"

text \<open>\<open>int(x)\<close> for a float: truncation towards zero. Clock readings are reals.\<close>

definition py_int :: "real \<Rightarrow> int" where
  "py_int x = (if 0 \<le> x then \<lfloor>x\<rfloor> else \<lceil>x\<rceil>)"

section \<open>device\_registration.py: the device registry\<close>

text \<open>
  The device bridge: \<open>subprocess.run(argv, capture_output=True, text=True, timeout=10)\<close>
  raises (a timeout, a missing executable) or returns a completed process. A bridge is
  the function from the argument vector to that outcome.
\<close>

record completed_process =
  returncode :: int
  stdout :: string
  stderr :: string

type_synonym bridge = "string list \<Rightarrow> py_exception + completed_process"

record registration_info =
  gbox_device_id :: string
  registration_time :: real
  status :: string

record DeviceRegistration =
  adb_path :: string
  registered_devices :: "string \<rightharpoonup> registration_info"

definition DeviceRegistration_init :: "string \<Rightarrow> DeviceRegistration" where
  "DeviceRegistration_init path = \<lparr> adb_path = path, registered_devices = Map.empty \<rparr>"

text \<open>\<open>_get_device_type\<close>: every failure inside is caught and gives \<open>'unknown'\<close>.\<close>

definition get_device_type :: "bridge \<Rightarrow> DeviceRegistration \<Rightarrow> string \<Rightarrow> string" where
  "get_device_type run self device_id =
     (if startswith device_id ''emulator-'' then ''emulator''
      else (case run [adb_path self, ''-s'', device_id, ''shell'', ''getprop'',
                      ''ro.product.model''] of
              Inl e \<Rightarrow> ''unknown''
            | Inr result \<Rightarrow>
                if returncode result = 0 then
                  (let model = strip (stdout result)
                   in if contains ''sdk'' (lower model) \<or> contains ''emulator'' (lower model)
                      then ''emulator'' else ''physical'')
                else ''unknown''))"

text \<open>An entry of the list \<open>get_connected_devices\<close> returns (keys \<open>id\<close>, \<open>status\<close>, \<open>type\<close>).\<close>

record connected_device =
  device_id :: string
  device_status :: string
  device_type :: string

text \<open>
  The \<open>for line in lines\<close> loop of \<open>get_connected_devices\<close>. The tuple assignment
  \<open>device_id, status = line.split('\t')\<close> raises \<open>ValueError\<close> unless the split has
  exactly two fields.
\<close>

fun parse_device_lines ::
  "bridge \<Rightarrow> DeviceRegistration \<Rightarrow> string list \<Rightarrow> connected_device list
     \<Rightarrow> py_exception + connected_device list" where
  "parse_device_lines run self [] devices = Inr devices"
| "parse_device_lines run self (line # lines) devices =
     (if strip line \<noteq> [] \<and> tab \<in> set line then
        (case split_char tab line of
           [d, st] \<Rightarrow>
             if st = ''device'' then
               parse_device_lines run self lines
                 (devices @ [\<lparr> device_id = d, device_status = st,
                               device_type = get_device_type run self d \<rparr>])
             else parse_device_lines run self lines devices
         | [] \<Rightarrow> Inl (ValueError ''not enough values to unpack (expected 2, got 0)'')
         | [d] \<Rightarrow> Inl (ValueError ''not enough values to unpack (expected 2, got 1)'')
         | _ \<Rightarrow> Inl (ValueError ''too many values to unpack (expected 2)''))
      else parse_device_lines run self lines devices)"

definition get_connected_devices :: "bridge \<Rightarrow> DeviceRegistration \<Rightarrow> connected_device list" where
  "get_connected_devices run self =
     (case run [adb_path self, ''devices''] of
        Inl e \<Rightarrow> []
      | Inr result \<Rightarrow>
          if returncode result \<noteq> 0 then []
          else (case parse_device_lines run self
                       (drop 1 (split_char nl (strip (stdout result)))) [] of
                  Inl e \<Rightarrow> []
                | Inr devices \<Rightarrow> devices))"

text \<open>
  \<open>get_device_info\<close>. The result dictionary has the keys \<open>id\<close>, \<open>type\<close>,
  \<open>properties\<close> and, when the size query sets it, \<open>screen_size\<close>. Each query sits in
  its own \<open>try\<close>; nothing outside those blocks can raise, so the outer handler (which
  would return \<open>{'id', 'error'}\<close>) has no branch here.
\<close>

record device_info =
  info_id :: string
  info_type :: string
  properties :: "string \<rightharpoonup> string"
  screen_size :: "string option"

definition property_names :: "string list" where
  "property_names =
     [''ro.product.model'', ''ro.product.brand'', ''ro.product.name'',
      ''ro.build.version.release'', ''ro.build.version.sdk'']"

text \<open>One round of the \<open>for prop in properties\<close> loop.\<close>

definition query_property ::
  "bridge \<Rightarrow> DeviceRegistration \<Rightarrow> string \<Rightarrow> string \<Rightarrow> (string \<rightharpoonup> string)
     \<Rightarrow> (string \<rightharpoonup> string)" where
  "query_property run self dev_id prop props =
     (case run [adb_path self, ''-s'', dev_id, ''shell'', ''getprop'', prop] of
        Inl e \<Rightarrow> props(prop \<mapsto> ''unknown'')
      | Inr result \<Rightarrow>
          if returncode result = 0 then props(prop \<mapsto> strip (stdout result)) else props)"

text \<open>
  The screen size block: \<open>size_output.split('Physical size: ')[1]\<close> raises
  \<open>IndexError\<close> when the split has one field, which the block's handler turns into
  \<open>'unknown'\<close>.
\<close>

definition query_screen_size ::
  "bridge \<Rightarrow> DeviceRegistration \<Rightarrow> string \<Rightarrow> string option \<Rightarrow> string option" where
  "query_screen_size run self dev_id current =
     (case run [adb_path self, ''-s'', dev_id, ''shell'', ''wm'', ''size''] of
        Inl e \<Rightarrow> Some ''unknown''
      | Inr result \<Rightarrow>
          if returncode result = 0 then
            (let size_output = strip (stdout result)
             in if contains ''Physical size:'' size_output then
                  (case split_str ''Physical size: '' size_output of
                     _ # s # _ \<Rightarrow> Some s
                   | _ \<Rightarrow> Some ''unknown'')
                else current)
          else current)"

definition get_device_info :: "bridge \<Rightarrow> DeviceRegistration \<Rightarrow> string \<Rightarrow> device_info" where
  "get_device_info run self dev_id =
     \<lparr> info_id = dev_id,
       info_type = get_device_type run self dev_id,
       properties = fold (query_property run self dev_id) property_names Map.empty,
       screen_size = query_screen_size run self dev_id None \<rparr>"

text \<open>\<open>install_gbox_agent\<close>: both branches after the package query report success.\<close>

definition install_gbox_agent :: "bridge \<Rightarrow> DeviceRegistration \<Rightarrow> string \<Rightarrow> bool" where
  "install_gbox_agent run self dev_id =
     (case run [adb_path self, ''-s'', dev_id, ''shell'', ''pm'', ''list'', ''packages'',
                ''ai.gbox.agent''] of
        Inl e \<Rightarrow> False
      | Inr result \<Rightarrow> if contains ''ai.gbox.agent'' (stdout result) then True else True)"

text \<open>
  \<open>register_with_gbox\<close>. \<open>now_id\<close> and \<open>now_reg\<close> are the two readings of
  \<open>time.time()\<close>: the one the session id is built from and the one stored as the
  registration time. It returns the session id (or \<open>None\<close>) and the registry.
\<close>

definition register_with_gbox ::
  "bridge \<Rightarrow> real \<Rightarrow> real \<Rightarrow> DeviceRegistration \<Rightarrow> string \<Rightarrow> string
     \<Rightarrow> string option \<times> DeviceRegistration" where
  "register_with_gbox run now_id now_reg self dev_id gbox_api_key =
     (if \<not> install_gbox_agent run self dev_id then (None, self)
      else
        (let gbox_id = ''gbox_'' @ replace_char CHR ''-'' CHR ''_'' dev_id @ ''_'' @
                         str_int (py_int now_id)
         in (Some gbox_id,
             self\<lparr> registered_devices := (registered_devices self)
                      (dev_id \<mapsto> \<lparr> gbox_device_id = gbox_id, registration_time = now_reg,
                                   status = ''registered'' \<rparr>) \<rparr>)))"

text \<open>Reading a decimal numeral back, used to show that \<open>str_int\<close> is injective.\<close>

definition digit_value :: "char \<Rightarrow> nat" where
  "digit_value c = of_char c - 48"

definition digits_value :: "string \<Rightarrow> nat" where
  "digits_value s = foldl (\<lambda>a c. 10 * a + digit_value c) 0 s"

text \<open>A bridge stub on which every command exits with code 0 and prints nothing.\<close>

definition ok_bridge :: bridge where
  "ok_bridge argv = Inr \<lparr> returncode = 0, stdout = [], stderr = [] \<rparr>"

text \<open>A bridge stub on which every command times out.\<close>

definition timeout_bridge :: bridge where
  "timeout_bridge argv = Inl (OtherException ''timed out after 10 seconds'')"

text \<open>
  A bridge stub for the device \<open>emulator-5554\<close>: the brand query exits with code 1,
  the name query times out, every other command prints \<open>Pixel\<close> and exits with code 0.
\<close>

definition flaky_bridge :: bridge where
  "flaky_bridge argv =
     (if argv = [''adb'', ''-s'', ''emulator-5554'', ''shell'', ''getprop'', ''ro.product.brand'']
        then Inr \<lparr> returncode = 1, stdout = [], stderr = ''error: closed'' \<rparr>
      else if argv = [''adb'', ''-s'', ''emulator-5554'', ''shell'', ''getprop'', ''ro.product.name'']
        then Inl (OtherException ''timed out after 10 seconds'')
      else Inr \<lparr> returncode = 0, stdout = ''Pixel'' @ [nl], stderr = [] \<rparr>)"

text \<open>
  The specification's reading of a device row, to compare \<open>get_connected_devices\<close>
  with: the id is the text before the tab, the status the text after it, and the ready
  rows are the lines \<open>id<TAB>device\<close>, each with the type the registry gives its id.
\<close>

definition row_id :: "string \<Rightarrow> string" where
  "row_id line = takeWhile (\<lambda>c. c \<noteq> tab) line"

definition row_status :: "string \<Rightarrow> string" where
  "row_status line = drop 1 (dropWhile (\<lambda>c. c \<noteq> tab) line)"

definition ready_rows :: "bridge \<Rightarrow> DeviceRegistration \<Rightarrow> string list \<Rightarrow> connected_device list" where
  "ready_rows run self rows =
     map (\<lambda>line. \<lparr> device_id = row_id line, device_status = ''device'',
                    device_type = get_device_type run self (row_id line) \<rparr>)
         (filter (\<lambda>line. tab \<in> set line \<and> row_status line = ''device'') rows)"

text \<open>
  Two bridge stubs for \<open>adb devices\<close>: one whose second row has three tab-separated
  fields, one with two ready rows and one offline row.
\<close>

definition three_field_bridge :: bridge where
  "three_field_bridge argv =
     (if argv = [''adb'', ''devices'']
        then Inr \<lparr> returncode = 0,
                   stdout = ''List of devices attached'' @ [nl] @
                            ''emulator-5554'' @ [tab] @ ''device'' @ [nl] @
                            ''R58M'' @ [tab] @ ''device'' @ [tab] @ ''usb'' @ [nl],
                   stderr = [] \<rparr>
      else Inr \<lparr> returncode = 0, stdout = ''Pixel'' @ [nl], stderr = [] \<rparr>)"

definition two_ready_bridge :: bridge where
  "two_ready_bridge argv =
     (if argv = [''adb'', ''devices'']
        then Inr \<lparr> returncode = 0,
                   stdout = ''List of devices attached'' @ [nl] @
                            ''emulator-5554'' @ [tab] @ ''device'' @ [nl] @
                            ''R58M'' @ [tab] @ ''device'' @ [nl] @
                            ''ZX1G'' @ [tab] @ ''offline'' @ [nl, nl],
                   stderr = [] \<rparr>
      else Inr \<lparr> returncode = 0, stdout = ''Pixel'' @ [nl], stderr = [] \<rparr>)"

section \<open>gbox\_device\_controller.py: the remote controllers\<close>

text \<open>
  The classes of the controller hierarchy, as Python sees them: the base of each class,
  the names its body defines, and the names its body marks \<open>@abstractmethod\<close>.
  \<open>DeviceController\<close> derives from \<open>ABC\<close>, which adds no method to those of
  \<open>object\<close>.
\<close>

datatype py_class =
    ClsDeviceController
  | ClsMockDeviceController
  | ClsGBOXDeviceController
  | ClsGBOXLocalDeviceController

fun class_name :: "py_class \<Rightarrow> string" where
  "class_name ClsDeviceController = ''DeviceController''"
| "class_name ClsMockDeviceController = ''MockDeviceController''"
| "class_name ClsGBOXDeviceController = ''GBOXDeviceController''"
| "class_name ClsGBOXLocalDeviceController = ''GBOXLocalDeviceController''"

fun base_class :: "py_class \<Rightarrow> py_class option" where
  "base_class ClsDeviceController = None"
| "base_class ClsMockDeviceController = Some ClsDeviceController"
| "base_class ClsGBOXDeviceController = Some ClsDeviceController"
| "base_class ClsGBOXLocalDeviceController = Some ClsDeviceController"

fun class_body :: "py_class \<Rightarrow> string list" where
  "class_body ClsDeviceController =
     [''click'', ''swipe'', ''type_text'', ''press_key'', ''get_screen_info'']"
| "class_body ClsMockDeviceController =
     [''click'', ''swipe'', ''type_text'', ''press_key'', ''get_screen_info'']"
| "class_body ClsGBOXDeviceController =
     [''__init__'', ''_initialize_gbox'', ''click'', ''type_text'', ''swipe'',
      ''get_screen_text'', ''take_screenshot'', ''is_connected'', ''get_device_info'']"
| "class_body ClsGBOXLocalDeviceController =
     [''__init__'', ''_initialize_local_gbox'', ''click'', ''type_text'', ''swipe'',
      ''get_screen_text'', ''take_screenshot'', ''is_connected'', ''get_device_info'']"

fun abstract_in_body :: "py_class \<Rightarrow> string list" where
  "abstract_in_body ClsDeviceController =
     [''click'', ''swipe'', ''type_text'', ''press_key'', ''get_screen_info'']"
| "abstract_in_body cls = []"

text \<open>
  \<open>__abstractmethods__\<close>, as \<open>ABCMeta\<close> computes it: the names the body marks
  abstract, and the abstract names of the base that the body does not define.
\<close>

definition abstractmethods :: "py_class \<Rightarrow> string list" where
  "abstractmethods cls =
     abstract_in_body cls @
     (case base_class cls of
        None \<Rightarrow> []
      | Some b \<Rightarrow> filter (\<lambda>n. n \<notin> set (class_body cls)) (abstract_in_body b))"

text \<open>
  Attribute lookup along the method resolution order (the class, then its base), for a
  name that \<open>object\<close> itself does not provide.
\<close>

definition find_method :: "py_class \<Rightarrow> string \<Rightarrow> py_class option" where
  "find_method cls name =
     (if name \<in> set (class_body cls) then Some cls
      else (case base_class cls of
              None \<Rightarrow> None
            | Some b \<Rightarrow> if name \<in> set (class_body b) then Some b else None))"

definition quoted :: "string \<Rightarrow> string" where
  "quoted s = CHR 0x27 # s @ [CHR 0x27]"

definition getattr_method :: "py_class \<Rightarrow> string \<Rightarrow> py_exception + py_class" where
  "getattr_method cls name =
     (case find_method cls name of
        Some c \<Rightarrow> Inr c
      | None \<Rightarrow> Inl (AttributeError
                 (quoted (class_name cls) @ '' object has no attribute '' @ quoted name)))"

text \<open>
  \<open>object.__init__\<close> accepts no argument besides the instance when the class overrides
  \<open>__init__\<close>. \<open>super().__init__(...)\<close> in a class resolves \<open>__init__\<close> from the base
  on; when no class on the way defines it, it is \<open>object.__init__\<close>.
\<close>

definition object_init :: "string list \<Rightarrow> py_exception + unit" where
  "object_init args =
     (if args = [] then Inr ()
      else Inl (TypeError
        ''object.__init__() takes exactly one argument (the instance to initialize)''))"

definition super_init :: "py_class \<Rightarrow> string list \<Rightarrow> py_exception + unit" where
  "super_init cls args =
     (case base_class cls of
        None \<Rightarrow> object_init args
      | Some b \<Rightarrow> (case find_method b ''__init__'' of
                    None \<Rightarrow> object_init args
                  | Some c \<Rightarrow> Inr ()))"

text \<open>
  The remote SDK: whether the import of \<open>gbox_sdk\<close> succeeded, and the constructor
  \<open>GBoxClient(api_key=...)\<close>, which returns a client or raises. A construction
  returns its outcome and the list of calls it made to the backend.
\<close>

record 'c gbox_sdk =
  GBOX_AVAILABLE :: bool
  GBoxClient :: "string \<Rightarrow> py_exception + 'c"

datatype backend_call = NewClient string

record 'c gbox_controller =
  controller_api_key :: string
  client :: "'c option"

type_synonym 'c construction = "(py_exception + 'c gbox_controller) \<times> backend_call list"

text \<open>
  \<open>_initialize_gbox\<close> and \<open>_initialize_local_gbox\<close>: the client is built, then the
  argument \<open>self.device_id\<close> of the device call is read. No code of the class or its
  bases assigns that attribute, so the read raises \<open>AttributeError\<close> before the device
  call; the handler logs and re-raises.
\<close>

definition initialize_gbox :: "'c gbox_sdk \<Rightarrow> py_class \<Rightarrow> string \<Rightarrow> 'c construction" where
  "initialize_gbox sdk cls key =
     (case GBoxClient sdk key of
        Inl e \<Rightarrow> (Inl e, [NewClient key])
      | Inr c \<Rightarrow>
          (Inl (AttributeError
             (quoted (class_name cls) @ '' object has no attribute '' @ quoted ''device_id'')),
           [NewClient key]))"

text \<open>\<open>gbox_api_key or os.getenv('GBOX_API_KEY')\<close>: an empty string counts as absent.\<close>

definition py_or :: "string option \<Rightarrow> string option \<Rightarrow> string option" where
  "py_or a b = (case a of None \<Rightarrow> b | Some s \<Rightarrow> if s = [] then b else Some s)"

text \<open>
  The body of \<open>__init__\<close>, the same in both classes but for the initialisation method.
  \<open>getenv\<close> is the value of the environment variable \<open>GBOX_API_KEY\<close>.
\<close>

definition remote_controller_init ::
  "py_class \<Rightarrow> 'c gbox_sdk \<Rightarrow> string option \<Rightarrow> string \<Rightarrow> string option \<Rightarrow> 'c construction" where
  "remote_controller_init cls sdk getenv dev_id api_key =
     (case super_init cls [dev_id] of
        Inl e \<Rightarrow> (Inl e, [])
      | Inr _ \<Rightarrow>
          (case py_or api_key getenv of
             None \<Rightarrow> (Inl (ValueError ''GBOX_API_KEY environment variable required''), [])
           | Some key \<Rightarrow>
               if key = [] then
                 (Inl (ValueError ''GBOX_API_KEY environment variable required''), [])
               else if GBOX_AVAILABLE sdk then initialize_gbox sdk cls key
               else (Inl (RuntimeError ''GBOX SDK not available''), [])))"

text \<open>
  Calling a class: \<open>object.__new__\<close> refuses a class whose \<open>__abstractmethods__\<close> is
  not empty; otherwise \<open>__init__\<close> runs.
\<close>

definition new_instance :: "py_class \<Rightarrow> 'c construction \<Rightarrow> 'c construction" where
  "new_instance cls init =
     (if abstractmethods cls \<noteq> [] then
        (Inl (TypeError (''Can'' @ [CHR 0x27] @ ''t instantiate abstract class '' @
                         class_name cls)), [])
      else init)"

definition GBOXDeviceController_new ::
  "'c gbox_sdk \<Rightarrow> string option \<Rightarrow> string \<Rightarrow> string option \<Rightarrow> 'c construction" where
  "GBOXDeviceController_new sdk getenv dev_id api_key =
     new_instance ClsGBOXDeviceController
       (remote_controller_init ClsGBOXDeviceController sdk getenv dev_id api_key)"

definition GBOXLocalDeviceController_new ::
  "'c gbox_sdk \<Rightarrow> string option \<Rightarrow> string \<Rightarrow> string option \<Rightarrow> 'c construction" where
  "GBOXLocalDeviceController_new sdk getenv dev_id api_key =
     new_instance ClsGBOXLocalDeviceController
       (remote_controller_init ClsGBOXLocalDeviceController sdk getenv dev_id api_key)"

section \<open>Properties of the task executor\<close>

lemma execute_task_returned:
  "execute_task self sleep name params t0 t1 dev = (Inr r, self', dev') \<Longrightarrow>
     task_history self' = task_history self @ [r] \<and> task_name r = name"
  by (auto simp: execute_task_def record_result_def Let_def
      split: prod.splits sum.splits py_raise.splits)

lemma execute_task_escaped:
  "execute_task self sleep name params t0 t1 dev = (Inl x, self', dev') \<Longrightarrow> self' = self"
  by (auto simp: execute_task_def record_result_def Let_def
      split: prod.splits sum.splits py_raise.splits)

text \<open>
  Claim C4, as the code has it. The claim says that any exception raised inside the
  handler is caught and recorded. The handler of \<open>execute_task\<close> is
  \<open>except Exception\<close>: a \<open>KeyboardInterrupt\<close> raised in the recipe handler's
  \<open>time.sleep(1)\<close> leaves \<open>execute_task\<close>, and no result is built.
\<close>

theorem execute_task_keyboard_interrupt_counterexample:
  "dispatch_task (TaskExecutor_init MockDeviceController) interrupted_sleep
     ''RecipeAddMultipleRecipes'' () [] = (Inl KeyboardInterrupt, [Click 500 1200]) \<and>
   execute_task (TaskExecutor_init MockDeviceController) interrupted_sleep
     ''RecipeAddMultipleRecipes'' () 10 12 [] =
     (Inl KeyboardInterrupt, TaskExecutor_init MockDeviceController, [Click 500 1200])"
  by (simp add: execute_task_def dispatch_task_def execute_recipe_task_def then_do_def
      TaskExecutor_init_def MockDeviceController_def interrupted_sleep_def)

text \<open>
  Claim C4, amended. Whatever the task name and the parameters: when the dispatched
  handler raises an exception \<open>e\<close> that derives from \<open>Exception\<close>, \<open>execute_task\<close>
  returns a result with \<open>success = False\<close> and \<open>str(e)\<close> as its error message; when
  the handler returns a boolean, \<open>execute_task\<close> returns a result with that boolean as
  its success flag and the error message \<open>None\<close>; any other raise of the handler
  leaves \<open>execute_task\<close> uncaught, with the executor as it was.
\<close>

theorem execute_task_catches:
  "(\<forall>e dev'. dispatch_task self sleep name params dev = (Inl (Exc e), dev') \<longrightarrow>
       fst (execute_task self sleep name params t0 t1 dev) =
         Inr \<lparr> task_name = name, success = False, execution_time = t1 - t0,
               error_message = Some (str_exc e), timestamp = t0 \<rparr>) \<and>
   (\<forall>b dev'. dispatch_task self sleep name params dev = (Inr b, dev') \<longrightarrow>
       fst (execute_task self sleep name params t0 t1 dev) =
         Inr \<lparr> task_name = name, success = b, execution_time = t1 - t0,
               error_message = None, timestamp = t0 \<rparr>) \<and>
   (\<forall>x dev'. dispatch_task self sleep name params dev = (Inl x, dev') \<longrightarrow>
       (\<forall>e. x \<noteq> Exc e) \<longrightarrow>
       execute_task self sleep name params t0 t1 dev = (Inl x, self, dev'))"
  by (auto simp: execute_task_def record_result_def Let_def split: py_raise.splits)

theorem execute_task_catches_witness:
  "dispatch_task (TaskExecutor_init FailingTypeController) quiet_sleep
     ''RecipeAddMultipleRecipes'' () [] =
     (Inl (Exc (OtherException ''input not focused'')), [Click 500 1200]) \<and>
   fst (execute_task (TaskExecutor_init FailingTypeController) quiet_sleep
     ''RecipeAddMultipleRecipes'' () 10 12 []) =
     Inr \<lparr> task_name = ''RecipeAddMultipleRecipes'', success = False, execution_time = 2,
           error_message = Some ''input not focused'', timestamp = 10 \<rparr> \<and>
   dispatch_task (TaskExecutor_init MockDeviceController) quiet_sleep
     ''SimpleCalendarAddOneEvent'' () [] =
     (Inr True, [Click 500 1200, TypeText ''Test Event'', Click 500 1400]) \<and>
   fst (execute_task (TaskExecutor_init MockDeviceController) quiet_sleep
     ''SimpleCalendarAddOneEvent'' () 10 12 []) =
     Inr \<lparr> task_name = ''SimpleCalendarAddOneEvent'', success = True, execution_time = 2,
           error_message = None, timestamp = 10 \<rparr>"
proof -
  have d1: "dispatch_task (TaskExecutor_init FailingTypeController) quiet_sleep
      ''RecipeAddMultipleRecipes'' () [] =
     (Inl (Exc (OtherException ''input not focused'')), [Click 500 1200])"
    by (simp add: dispatch_task_def execute_recipe_task_def then_do_def TaskExecutor_init_def
        FailingTypeController_def MockDeviceController_def quiet_sleep_def)
  have d2: "dispatch_task (TaskExecutor_init MockDeviceController) quiet_sleep
      ''SimpleCalendarAddOneEvent'' () [] =
     (Inr True, [Click 500 1200, TypeText ''Test Event'', Click 500 1400])"
    by (simp add: dispatch_task_def execute_calendar_task_def then_do_def TaskExecutor_init_def
        MockDeviceController_def quiet_sleep_def)
  from d1 d2
    execute_task_catches [of "TaskExecutor_init FailingTypeController" quiet_sleep
      "''RecipeAddMultipleRecipes''" "()" "[]" 10 12]
    execute_task_catches [of "TaskExecutor_init MockDeviceController" quiet_sleep
      "''SimpleCalendarAddOneEvent''" "()" "[]" 10 12]
  show ?thesis by auto
qed

text \<open>
  Claim C5, as the code has it. The claim counts one appended result per call, failing
  or not. The append follows the \<open>try\<close> statement and is not in a \<open>finally\<close>: after
  one call whose handler is interrupted in \<open>time.sleep(1)\<close> the history is still
  empty.
\<close>

theorem task_history_interrupted_call_counterexample:
  "fst (execute_tasks (TaskExecutor_init MockDeviceController) interrupted_sleep
          [(''RecipeAddMultipleRecipes'', (), 1, 2)] []) = [Inl KeyboardInterrupt] \<and>
   length (task_history (fst (snd (execute_tasks (TaskExecutor_init MockDeviceController)
          interrupted_sleep [(''RecipeAddMultipleRecipes'', (), 1, 2)] [])))) = 0"
  by (simp add: execute_task_def dispatch_task_def execute_recipe_task_def then_do_def
      TaskExecutor_init_def MockDeviceController_def interrupted_sleep_def)

text \<open>
  Claim C5, amended. For every sequence of calls of \<open>execute_task\<close>, with any task
  names, parameters and controller: the history after the calls is the history before
  them followed by the results of the calls that returned, in call order, each with
  the task name of its call; earlier entries are kept as they were, and a call that
  an uncaught raise left appends nothing. When every call returned (with success or
  with a recorded failure), there is exactly one result per call, so the history grows
  by the number of calls.
\<close>

theorem task_history_append_only:
  "execute_tasks self sleep calls dev = (outcomes, self', dev') \<Longrightarrow>
     task_history self' = task_history self @ returned outcomes \<and>
     list_all2 (\<lambda>outcome call. \<forall>r. outcome = Inr r \<longrightarrow> task_name r = fst call)
       outcomes calls \<and>
     ((\<forall>outcome \<in> set outcomes. \<not> isl outcome) \<longrightarrow>
        map task_name (returned outcomes) = map fst calls \<and>
        length (task_history self') = length (task_history self) + length calls)"
proof (induction calls arbitrary: self dev outcomes self' dev')
  case Nil
  then show ?case by simp
next
  case (Cons c calls)
  obtain name params t0 t1 where c: "c = (name, params, t0, t1)"
    by (cases c) auto
  obtain out s1 d1 where step: "execute_task self sleep name params t0 t1 dev = (out, s1, d1)"
    by (cases "execute_task self sleep name params t0 t1 dev") auto
  obtain outs s2 d2 where rest: "execute_tasks s1 sleep calls d1 = (outs, s2, d2)"
    by (cases "execute_tasks s1 sleep calls d1") auto
  from Cons.prems c step rest have eqs: "outcomes = out # outs" "self' = s2" "dev' = d2"
    by simp_all
  from Cons.IH [OF rest] have ih1: "task_history s2 = task_history s1 @ returned outs"
    and ih2: "list_all2 (\<lambda>outcome call. \<forall>r. outcome = Inr r \<longrightarrow> task_name r = fst call)
                outs calls"
    and ih3: "(\<forall>outcome \<in> set outs. \<not> isl outcome) \<longrightarrow>
                map task_name (returned outs) = map fst calls"
    by simp_all
  from ih2 have len: "length outs = length calls"
    by (rule list_all2_lengthD)
  show ?case
  proof (cases out)
    case (Inl x)
    with step have "s1 = self"
      by (auto dest: execute_task_escaped)
    with Inl eqs ih1 ih2 show ?thesis
      by simp
  next
    case (Inr r)
    with step have h: "task_history s1 = task_history self @ [r]" and n: "task_name r = name"
      by (auto dest: execute_task_returned)
    have l: "length (returned outs) = length calls" if "\<forall>outcome \<in> set outs. \<not> isl outcome"
      using ih3 that by (metis length_map)
    from Inr eqs c h n ih1 ih2 ih3 l show ?thesis
      by simp
  qed
qed

theorem task_history_append_only_witness:
  "length (task_history (fst (snd (execute_tasks (TaskExecutor_init FailingTypeController)
      quiet_sleep
      [(''RecipeAddMultipleRecipes'', (), 1, 2), (''FooBarTask'', (), 3, 4),
       (''SimpleCalendarAddOneEvent'', (), 5, 7)] [])))) = 3 \<and>
   map task_name (task_history (fst (snd (execute_tasks
      (TaskExecutor_init FailingTypeController) quiet_sleep
      [(''RecipeAddMultipleRecipes'', (), 1, 2), (''FooBarTask'', (), 3, 4),
       (''SimpleCalendarAddOneEvent'', (), 5, 7)] [])))) =
     [''RecipeAddMultipleRecipes'', ''FooBarTask'', ''SimpleCalendarAddOneEvent'']"
proof -
  let ?calls = "[(''RecipeAddMultipleRecipes'', (), 1::real, 2::real), (''FooBarTask'', (), 3, 4),
       (''SimpleCalendarAddOneEvent'', (), 5, 7)]"
  let ?run = "execute_tasks (TaskExecutor_init FailingTypeController) quiet_sleep ?calls []"
  have e: "?run = (fst ?run, fst (snd ?run), snd (snd ?run))"
    by simp
  have all: "\<forall>outcome \<in> set (fst ?run). \<not> isl outcome"
    by (simp add: execute_task_def dispatch_task_def execute_recipe_task_def
        execute_calendar_task_def execute_generic_task_def then_do_def record_result_def
        TaskExecutor_init_def FailingTypeController_def MockDeviceController_def
        quiet_sleep_def Let_def)
  from task_history_append_only [OF e] all
  have "task_history (fst (snd ?run)) =
          task_history (TaskExecutor_init FailingTypeController) @ returned (fst ?run)"
    and "map task_name (returned (fst ?run)) = map fst ?calls"
    and "length (task_history (fst (snd ?run))) =
          length (task_history (TaskExecutor_init FailingTypeController)) + length ?calls"
    by blast+
  then show ?thesis
    by (simp add: TaskExecutor_init_def)
qed

text \<open>
  Claim C6. For every task name other than the two named handlers and every parameter
  mapping, \<open>execute_task\<close> returns a result that reports success with no error message,
  appends that result, and hands back the device state it was given: whatever the
  controller is, none of its operations ran.
\<close>

theorem generic_task_no_device_ops:
  "name \<noteq> ''RecipeAddMultipleRecipes'' \<Longrightarrow> name \<noteq> ''SimpleCalendarAddOneEvent'' \<Longrightarrow>
   execute_task self sleep name params t0 t1 dev =
     (Inr \<lparr> task_name = name, success = True, execution_time = t1 - t0,
        error_message = None, timestamp = t0 \<rparr>,
      self\<lparr> task_history := task_history self @
        [\<lparr> task_name = name, success = True, execution_time = t1 - t0,
           error_message = None, timestamp = t0 \<rparr>] \<rparr>,
      dev)"
  by (simp add: execute_task_def dispatch_task_def execute_generic_task_def record_result_def
      Let_def)

theorem generic_task_no_device_ops_witness:
  "execute_task (TaskExecutor_init MockDeviceController) interrupted_sleep ''FooBarTask'' ()
     10 12 [] =
     (Inr \<lparr> task_name = ''FooBarTask'', success = True, execution_time = 2,
        error_message = None, timestamp = 10 \<rparr>,
      \<lparr> device_controller = MockDeviceController,
        task_history = [\<lparr> task_name = ''FooBarTask'', success = True, execution_time = 2,
           error_message = None, timestamp = 10 \<rparr>] \<rparr>,
      [])"
  using generic_task_no_device_ops
    [of "''FooBarTask''" "TaskExecutor_init MockDeviceController" interrupted_sleep "()" 10 12 "[]"]
  by (simp add: TaskExecutor_init_def)

section \<open>Properties of the device registry\<close>

lemma digit_value_digit_char: "d < 10 \<Longrightarrow> digit_value (digit_char d) = d"
  by (simp add: digit_value_def digit_char_def)

lemma digits_value_snoc: "digits_value (s @ [c]) = 10 * digits_value s + digit_value c"
  by (simp add: digits_value_def)

lemma digits_value_str_nat: "digits_value (str_nat n) = n"
proof (induction n rule: str_nat.induct)
  case (1 n)
  show ?case
  proof (cases "n < 10")
    case True
    then show ?thesis
      by (simp add: str_nat.simps [of n] digits_value_def digit_value_digit_char)
  next
    case False
    with 1 have "digits_value (str_nat (n div 10)) = n div 10" by simp
    with False show ?thesis
      by (simp add: str_nat.simps [of n] digits_value_snoc digit_value_digit_char)
  qed
qed

lemma str_nat_inj: "str_nat m = str_nat n \<Longrightarrow> m = n"
  by (metis digits_value_str_nat)

lemma digit_char_not_minus: "d < 10 \<Longrightarrow> digit_char d \<noteq> CHR ''-''"
proof
  assume d: "d < 10" and e: "digit_char d = CHR ''-''"
  from e have "(of_char (digit_char d) :: nat) = of_char (CHR ''-'')" by simp
  with d show False by (simp add: digit_char_def)
qed

lemma str_nat_hd: "\<exists>d rest. d < 10 \<and> str_nat n = digit_char d # rest"
proof (induction n rule: str_nat.induct)
  case (1 n)
  show ?case
  proof (cases "n < 10")
    case True
    then show ?thesis by (auto simp: str_nat.simps [of n])
  next
    case False
    with 1 obtain d rest where "d < 10" "str_nat (n div 10) = digit_char d # rest" by auto
    with False show ?thesis by (auto simp: str_nat.simps [of n])
  qed
qed

lemma str_int_inj: "str_int i = str_int j \<Longrightarrow> i = j"
proof -
  assume eq: "str_int i = str_int j"
  have neg_pos: "CHR ''-'' # str_nat a \<noteq> str_nat b" for a b
  proof -
    obtain d rest where "d < 10" "str_nat b = digit_char d # rest"
      using str_nat_hd by blast
    then show ?thesis using digit_char_not_minus [of d] by auto
  qed
  show ?thesis
  proof (cases "i < 0")
    case True
    show ?thesis
    proof (cases "j < 0")
      case True
      with \<open>i < 0\<close> eq have "str_nat (nat (- i)) = str_nat (nat (- j))"
        by (simp add: str_int_def)
      then have "nat (- i) = nat (- j)" by (rule str_nat_inj)
      with True \<open>i < 0\<close> show ?thesis by simp
    next
      case False
      with \<open>i < 0\<close> eq neg_pos show ?thesis by (simp add: str_int_def)
    qed
  next
    case False
    show ?thesis
    proof (cases "j < 0")
      case True
      with False eq neg_pos [of "nat (- j)" "nat i"] show ?thesis
        by (simp add: str_int_def)
    next
      case jpos: False
      with False eq have "str_nat (nat i) = str_nat (nat j)" by (simp add: str_int_def)
      then have "nat i = nat j" by (rule str_nat_inj)
      with False jpos show ?thesis by simp
    qed
  qed
qed

lemma install_gbox_agent_adb:
  "adb_path self' = adb_path self \<Longrightarrow>
   install_gbox_agent run self' dev_id = install_gbox_agent run self dev_id"
  by (simp add: install_gbox_agent_def)

lemma register_with_gbox_installed:
  "install_gbox_agent run self dev_id \<Longrightarrow>
   register_with_gbox run t t' self dev_id key =
     (Some (''gbox_'' @ replace_char CHR ''-'' CHR ''_'' dev_id @ ''_'' @ str_int (py_int t)),
      self\<lparr> registered_devices := (registered_devices self)
        (dev_id \<mapsto> \<lparr> gbox_device_id =
             ''gbox_'' @ replace_char CHR ''-'' CHR ''_'' dev_id @ ''_'' @ str_int (py_int t),
           registration_time = t', status = ''registered'' \<rparr>) \<rparr>)"
  unfolding register_with_gbox_def Let_def by simp

text \<open>
  Claim C9, as the code has it. The claim says that the second of two registrations of
  one device id always returns a different session id. The session id is built from the
  device id and the whole seconds of the clock, so two registrations within the same
  second return the same id: here at 100.2 s and 100.7 s.
\<close>

theorem register_twice_same_second_counterexample:
  "fst (register_with_gbox ok_bridge (1007 / 10) (1007 / 10)
          (snd (register_with_gbox ok_bridge (1002 / 10) (1002 / 10)
                  (DeviceRegistration_init ''adb'') ''emulator-5554'' ''key''))
          ''emulator-5554'' ''key'') =
   fst (register_with_gbox ok_bridge (1002 / 10) (1002 / 10)
          (DeviceRegistration_init ''adb'') ''emulator-5554'' ''key'') \<and>
   fst (register_with_gbox ok_bridge (1002 / 10) (1002 / 10)
          (DeviceRegistration_init ''adb'') ''emulator-5554'' ''key'') =
     Some ''gbox_emulator_5554_100''"
proof -
  have s: "str_int 100 = ''100''"
    by code_simp
  show ?thesis
    by (simp add: register_with_gbox_def install_gbox_agent_def ok_bridge_def Let_def py_int_def s
        DeviceRegistration_init_def replace_char_def)
qed

text \<open>
  Claim C9, amended. When the agent check passes in both calls (the bridge answers the
  package query), registering the same device id twice overwrites its record: the first
  call adds the id to the registration map, the second leaves the set of registered ids
  as it is and replaces the id's record by the one of the second call, every other
  id's record is untouched, and the two returned session ids differ exactly when the
  whole seconds of the two clock readings differ.
\<close>

theorem register_twice_overwrites:
  assumes "install_gbox_agent run1 self dev_id"
    and "install_gbox_agent run2 self dev_id"
    and "register_with_gbox run1 t1 t1' self dev_id key1 = (sid1, self1)"
    and "register_with_gbox run2 t2 t2' self1 dev_id key2 = (sid2, self2)"
  shows "dom (registered_devices self1) = insert dev_id (dom (registered_devices self)) \<and>
         dom (registered_devices self2) = dom (registered_devices self1) \<and>
         (\<exists>s. sid2 = Some s \<and> registered_devices self2 dev_id =
            Some \<lparr> gbox_device_id = s, registration_time = t2', status = ''registered'' \<rparr>) \<and>
         (\<forall>d. d \<noteq> dev_id \<longrightarrow> registered_devices self2 d = registered_devices self d) \<and>
         (sid1 \<noteq> sid2 \<longleftrightarrow> py_int t1 \<noteq> py_int t2)"
proof -
  define pre where "pre = ''gbox_'' @ replace_char CHR ''-'' CHR ''_'' dev_id @ ''_''"
  have e1: "(sid1, self1) =
     (Some (pre @ str_int (py_int t1)),
      self\<lparr> registered_devices := (registered_devices self)
        (dev_id \<mapsto> \<lparr> gbox_device_id = pre @ str_int (py_int t1),
           registration_time = t1', status = ''registered'' \<rparr>) \<rparr>)"
    unfolding pre_def
    using register_with_gbox_installed [OF assms(1), of t1 t1' key1] assms(3) by simp
  then have s1: "sid1 = Some (pre @ str_int (py_int t1))"
    and r1: "registered_devices self1 = (registered_devices self)
        (dev_id \<mapsto> \<lparr> gbox_device_id = pre @ str_int (py_int t1),
           registration_time = t1', status = ''registered'' \<rparr>)"
    and a1: "adb_path self1 = adb_path self"
    by simp_all
  from assms(2) have i2: "install_gbox_agent run2 self1 dev_id"
    unfolding install_gbox_agent_adb [OF a1, of run2 dev_id] .
  have e2: "(sid2, self2) =
     (Some (pre @ str_int (py_int t2)),
      self1\<lparr> registered_devices := (registered_devices self1)
        (dev_id \<mapsto> \<lparr> gbox_device_id = pre @ str_int (py_int t2),
           registration_time = t2', status = ''registered'' \<rparr>) \<rparr>)"
    unfolding pre_def
    using register_with_gbox_installed [OF i2, of t2 t2' key2] assms(4) by simp
  then have s2: "sid2 = Some (pre @ str_int (py_int t2))"
    and r2: "registered_devices self2 = (registered_devices self1)
        (dev_id \<mapsto> \<lparr> gbox_device_id = pre @ str_int (py_int t2),
           registration_time = t2', status = ''registered'' \<rparr>)"
    by simp_all
  have ids: "(sid1 \<noteq> sid2) = (py_int t1 \<noteq> py_int t2)"
    using s1 s2 str_int_inj [of "py_int t1" "py_int t2"] by auto
  have c1: "dom (registered_devices self1) = insert dev_id (dom (registered_devices self))"
    using r1 by simp
  have c2: "dom (registered_devices self2) = dom (registered_devices self1)"
    using r1 r2 by auto
  have c3: "\<exists>s. sid2 = Some s \<and> registered_devices self2 dev_id =
            Some \<lparr> gbox_device_id = s, registration_time = t2', status = ''registered'' \<rparr>"
    using s2 r2 by simp
  have c4: "\<forall>d. d \<noteq> dev_id \<longrightarrow> registered_devices self2 d = registered_devices self d"
    using r1 r2 by simp
  from c1 c2 c3 c4 ids show ?thesis by blast
qed

theorem register_twice_overwrites_witness:
  "install_gbox_agent ok_bridge (DeviceRegistration_init ''adb'') ''emulator-5554'' \<and>
   dom (registered_devices (snd (register_with_gbox ok_bridge 250 251
     (snd (register_with_gbox ok_bridge 100 101 (DeviceRegistration_init ''adb'')
        ''emulator-5554'' ''k1''))
     ''emulator-5554'' ''k2''))) = {''emulator-5554''} \<and>
   fst (register_with_gbox ok_bridge 100 101 (DeviceRegistration_init ''adb'')
        ''emulator-5554'' ''k1'') \<noteq>
   fst (register_with_gbox ok_bridge 250 251
     (snd (register_with_gbox ok_bridge 100 101 (DeviceRegistration_init ''adb'')
        ''emulator-5554'' ''k1''))
     ''emulator-5554'' ''k2'')"
proof -
  let ?r0 = "DeviceRegistration_init ''adb''"
  let ?a = "register_with_gbox ok_bridge 100 101 ?r0 ''emulator-5554'' ''k1''"
  let ?b = "register_with_gbox ok_bridge 250 251 (snd ?a) ''emulator-5554'' ''k2''"
  have i: "install_gbox_agent ok_bridge ?r0 ''emulator-5554''"
    by (simp add: install_gbox_agent_def ok_bridge_def)
  have ea: "?a = (fst ?a, snd ?a)" and eb: "?b = (fst ?b, snd ?b)"
    by simp_all
  have t: "py_int 100 \<noteq> py_int 250"
    by (simp add: py_int_def)
  have d0: "dom (registered_devices ?r0) = {}"
    by (simp add: DeviceRegistration_init_def)
  from register_twice_overwrites [OF i i ea eb] t d0 i show ?thesis
    by simp
qed

lemma install_gbox_agent_answered:
  "install_gbox_agent run self dev_id =
     (\<not> isl (run [adb_path self, ''-s'', dev_id, ''shell'', ''pm'', ''list'', ''packages'',
                     ''ai.gbox.agent'']))"
  by (simp add: install_gbox_agent_def split: sum.splits)

text \<open>
  Claim C10, as the code has it. The claim makes the outcome a function of the device
  id and the current time only, for any two API keys. The outcome also depends on the
  bridge: with the same device id, registry and clock, a bridge that answers the
  package query gives a session id and a bridge that times out gives \<open>None\<close>.
\<close>

theorem register_depends_on_bridge_counterexample:
  "fst (register_with_gbox ok_bridge 100 101 (DeviceRegistration_init ''adb'')
          ''emulator-5554'' ''key-a'') = Some ''gbox_emulator_5554_100'' \<and>
   fst (register_with_gbox timeout_bridge 100 101 (DeviceRegistration_init ''adb'')
          ''emulator-5554'' ''key-b'') = None"
proof -
  have s: "str_int 100 = ''100''"
    by code_simp
  show ?thesis
    by (simp add: register_with_gbox_def install_gbox_agent_def ok_bridge_def timeout_bridge_def
        Let_def py_int_def s DeviceRegistration_init_def replace_char_def)
qed

text \<open>
  Claim C10, amended. \<open>register_with_gbox\<close> never reads its API key: two runs with the
  same device id, registry and clock readings, on bridges that agree on whether the
  agent package query is answered or raises, return the same session id and leave the
  same registry, for any two keys. The outcome is a function of the device id, the
  clock readings, the registry and that bridge outcome alone: no session id and the
  registry unchanged when the query raises, otherwise the session id built from the
  device id and the whole seconds of the clock, stored with the registration time.
\<close>

theorem register_ignores_api_key:
  "(isl (run1 [adb_path self, ''-s'', dev_id, ''shell'', ''pm'', ''list'', ''packages'',
               ''ai.gbox.agent'']) =
    isl (run2 [adb_path self, ''-s'', dev_id, ''shell'', ''pm'', ''list'', ''packages'',
               ''ai.gbox.agent'']) \<longrightarrow>
      register_with_gbox run1 now_id now_reg self dev_id key1 =
      register_with_gbox run2 now_id now_reg self dev_id key2) \<and>
   register_with_gbox run1 now_id now_reg self dev_id key1 =
     (if isl (run1 [adb_path self, ''-s'', dev_id, ''shell'', ''pm'', ''list'', ''packages'',
                    ''ai.gbox.agent''])
      then (None, self)
      else (Some (''gbox_'' @ replace_char CHR ''-'' CHR ''_'' dev_id @ ''_'' @
                   str_int (py_int now_id)),
            self\<lparr> registered_devices := (registered_devices self)
              (dev_id \<mapsto> \<lparr> gbox_device_id =
                   ''gbox_'' @ replace_char CHR ''-'' CHR ''_'' dev_id @ ''_'' @
                     str_int (py_int now_id),
                 registration_time = now_reg, status = ''registered'' \<rparr>) \<rparr>))"
proof -
  have out: "register_with_gbox run now_id now_reg self dev_id key =
     (if isl (run [adb_path self, ''-s'', dev_id, ''shell'', ''pm'', ''list'', ''packages'',
                    ''ai.gbox.agent''])
      then (None, self)
      else (Some (''gbox_'' @ replace_char CHR ''-'' CHR ''_'' dev_id @ ''_'' @
                   str_int (py_int now_id)),
            self\<lparr> registered_devices := (registered_devices self)
              (dev_id \<mapsto> \<lparr> gbox_device_id =
                   ''gbox_'' @ replace_char CHR ''-'' CHR ''_'' dev_id @ ''_'' @
                     str_int (py_int now_id),
                 registration_time = now_reg, status = ''registered'' \<rparr>) \<rparr>))" for run key
    unfolding register_with_gbox_def install_gbox_agent_answered Let_def by simp
  show ?thesis
    unfolding out [of run1 key1] out [of run2 key2] by simp
qed

theorem register_ignores_api_key_witness:
  "register_with_gbox ok_bridge 100 101 (DeviceRegistration_init ''adb'') ''emulator-5554''
     ''key-a'' =
   register_with_gbox flaky_bridge 100 101 (DeviceRegistration_init ''adb'') ''emulator-5554''
     ''key-b'' \<and>
   fst (register_with_gbox ok_bridge 100 101 (DeviceRegistration_init ''adb'')
     ''emulator-5554'' ''key-a'') = Some ''gbox_emulator_5554_100''"
proof -
  have s: "str_int 100 = ''100''"
    by code_simp
  have a: "isl (ok_bridge [adb_path (DeviceRegistration_init ''adb''), ''-s'', ''emulator-5554'',
                 ''shell'', ''pm'', ''list'', ''packages'', ''ai.gbox.agent'']) =
           isl (flaky_bridge [adb_path (DeviceRegistration_init ''adb''), ''-s'', ''emulator-5554'',
                 ''shell'', ''pm'', ''list'', ''packages'', ''ai.gbox.agent''])"
    and b: "\<not> isl (ok_bridge [adb_path (DeviceRegistration_init ''adb''), ''-s'',
                 ''emulator-5554'', ''shell'', ''pm'', ''list'', ''packages'', ''ai.gbox.agent''])"
    by (simp_all add: ok_bridge_def flaky_bridge_def DeviceRegistration_init_def)
  note t = register_ignores_api_key [of ok_bridge "DeviceRegistration_init ''adb''"
      "''emulator-5554''" flaky_bridge 100 101 "''key-a''" "''key-b''"]
  from t a have eq: "register_with_gbox ok_bridge 100 101 (DeviceRegistration_init ''adb'')
      ''emulator-5554'' ''key-a'' =
    register_with_gbox flaky_bridge 100 101 (DeviceRegistration_init ''adb'') ''emulator-5554''
      ''key-b''"
    by blast
  from t b have "fst (register_with_gbox ok_bridge 100 101 (DeviceRegistration_init ''adb'')
     ''emulator-5554'' ''key-a'') =
     Some (''gbox_'' @ replace_char CHR ''-'' CHR ''_'' ''emulator-5554'' @ ''_'' @
                   str_int (py_int 100))"
    by simp
  then have "fst (register_with_gbox ok_bridge 100 101 (DeviceRegistration_init ''adb'')
     ''emulator-5554'' ''key-a'') = Some ''gbox_emulator_5554_100''"
    by (simp add: replace_char_def py_int_def s)
  with eq show ?thesis
    by (rule conjI)
qed

lemma query_property_apply:
  "query_property run self d x m p =
     (if p = x then
        (case run [adb_path self, ''-s'', d, ''shell'', ''getprop'', x] of
           Inl e \<Rightarrow> Some ''unknown''
         | Inr result \<Rightarrow> if returncode result = 0 then Some (strip (stdout result)) else m x)
      else m p)"
  by (simp add: query_property_def split: sum.splits)

lemma fold_query_property:
  "distinct ps \<Longrightarrow>
   fold (query_property run self d) ps m p =
     (if p \<in> set ps then
        (case run [adb_path self, ''-s'', d, ''shell'', ''getprop'', p] of
           Inl e \<Rightarrow> Some ''unknown''
         | Inr result \<Rightarrow> if returncode result = 0 then Some (strip (stdout result)) else m p)
      else m p)"
proof (induction ps arbitrary: m)
  case Nil
  then show ?case by simp
next
  case (Cons x xs)
  from Cons.prems have dx: "distinct xs" and nx: "x \<notin> set xs" by simp_all
  let ?m = "query_property run self d x m"
  have step: "fold (query_property run self d) (x # xs) m p =
                fold (query_property run self d) xs ?m p"
    by simp
  note ih = Cons.IH [OF dx, of ?m]
  show ?case
  proof (cases "p = x")
    case True
    have B: "fold (query_property run self d) xs ?m p = ?m p"
      using ih nx True by simp
    have C: "?m p =
      (case run [adb_path self, ''-s'', d, ''shell'', ''getprop'', p] of
         Inl e \<Rightarrow> Some ''unknown''
       | Inr result \<Rightarrow> if returncode result = 0 then Some (strip (stdout result)) else m p)"
      unfolding True by (simp add: query_property_apply)
    have mem: "p \<in> set (x # xs)"
      using True by simp
    show ?thesis
      unfolding step B C using mem by simp
  next
    case False
    have D: "?m p = m p"
      using False by (simp add: query_property_apply)
    have "fold (query_property run self d) (x # xs) m p =
      (if p \<in> set xs then
        (case run [adb_path self, ''-s'', d, ''shell'', ''getprop'', p] of
           Inl e \<Rightarrow> Some ''unknown''
         | Inr result \<Rightarrow> if returncode result = 0 then Some (strip (stdout result)) else ?m p)
       else ?m p)"
      unfolding step by (rule ih)
    then show ?thesis
      unfolding D using False by simp
  qed
qed

lemma distinct_property_names: "distinct property_names"
  by (simp add: property_names_def)

text \<open>
  Claim C8, as the code has it. The claim says that a property query that fails with a
  non-zero exit code sets the property to \<open>'unknown'\<close>. The loop stores a value only
  when the exit code is 0 or when the query raises: after a brand query that exits with
  code 1, the key \<open>ro.product.brand\<close> is absent from the properties.
\<close>

theorem get_device_info_nonzero_exit_counterexample:
  "properties (get_device_info flaky_bridge (DeviceRegistration_init ''adb'') ''emulator-5554'')
     ''ro.product.brand'' = None \<and>
   properties (get_device_info flaky_bridge (DeviceRegistration_init ''adb'') ''emulator-5554'')
     ''ro.product.brand'' \<noteq> Some ''unknown''"
  by (simp add: get_device_info_def property_names_def query_property_def flaky_bridge_def
      DeviceRegistration_init_def)

text \<open>
  Claim C8, amended. Each of the five property queries decides its own field and no
  other: a query that raises sets the property to \<open>'unknown'\<close>, a query that exits with
  code 0 sets it to the stripped output, and a query that exits with another code
  leaves the property absent. Whatever the queries do, the descriptor is returned, with
  the device id and the device type filled in.
\<close>

theorem get_device_info_per_property:
  "prop \<in> set property_names \<Longrightarrow>
   properties (get_device_info run self dev_id) prop =
     (case run [adb_path self, ''-s'', dev_id, ''shell'', ''getprop'', prop] of
        Inl e \<Rightarrow> Some ''unknown''
      | Inr result \<Rightarrow> if returncode result = 0 then Some (strip (stdout result)) else None) \<and>
   info_id (get_device_info run self dev_id) = dev_id \<and>
   info_type (get_device_info run self dev_id) = get_device_type run self dev_id"
  by (simp add: get_device_info_def fold_query_property [OF distinct_property_names])

theorem get_device_info_per_property_witness:
  "''ro.product.name'' \<in> set property_names \<and> ''ro.product.model'' \<in> set property_names \<and>
   properties (get_device_info flaky_bridge (DeviceRegistration_init ''adb'') ''emulator-5554'')
     ''ro.product.name'' = Some ''unknown'' \<and>
   properties (get_device_info flaky_bridge (DeviceRegistration_init ''adb'') ''emulator-5554'')
     ''ro.product.model'' = Some ''Pixel'' \<and>
   info_id (get_device_info flaky_bridge (DeviceRegistration_init ''adb'') ''emulator-5554'') =
     ''emulator-5554''"
proof -
  have n: "''ro.product.name'' \<in> set property_names"
    and m: "''ro.product.model'' \<in> set property_names"
    by (simp_all add: property_names_def)
  from get_device_info_per_property [OF n, of flaky_bridge "DeviceRegistration_init ''adb''" "''emulator-5554''"]
    get_device_info_per_property [OF m, of flaky_bridge "DeviceRegistration_init ''adb''" "''emulator-5554''"]
    n m
  show ?thesis
    by (simp add: flaky_bridge_def DeviceRegistration_init_def strip_def is_space_def
        whitespace_chars_def)
qed

lemma split_char_no_sep: "c \<notin> set a \<Longrightarrow> split_char c a = [a]"
  by (induction a) auto

lemma split_char_append: "c \<notin> set a \<Longrightarrow> split_char c (a @ c # rest) = a # split_char c rest"
  by (induction a) auto

lemma split_char_lines:
  "nl \<notin> set header \<Longrightarrow> \<forall>l\<in>set rows. nl \<notin> set l \<Longrightarrow>
   split_char nl (header @ concat (map (\<lambda>l. nl # l) rows)) = header # rows"
proof (induction rows arbitrary: header)
  case Nil
  then show ?case by (simp add: split_char_no_sep)
next
  case (Cons l rows)
  then have "split_char nl (l @ concat (map (\<lambda>l. nl # l) rows)) = l # rows"
    by simp
  with Cons.prems(1) show ?case
    by (simp add: split_char_append)
qed

lemma strip_nonempty:
  assumes "c \<in> set l" and "\<not> is_space c"
  shows "strip l \<noteq> []"
proof -
  let ?d = "dropWhile is_space l"
  from assms have ne: "?d \<noteq> []"
    by auto
  then have "\<not> is_space (hd ?d)"
    by (rule hd_dropWhile)
  moreover from ne have "hd ?d \<in> set (rev ?d)"
    by simp
  ultimately have "dropWhile is_space (rev ?d) \<noteq> []"
    by auto
  then show ?thesis
    by (simp add: strip_def)
qed

lemma split_char_row:
  assumes "tab \<in> set l" and "count_list l tab \<le> 1"
  shows "split_char tab l = [row_id l, row_status l]"
proof -
  let ?a = "takeWhile (\<lambda>c. c \<noteq> tab) l"
  let ?b = "dropWhile (\<lambda>c. c \<noteq> tab) l"
  from assms(1) have ne: "?b \<noteq> []"
    by auto
  then have "\<not> (hd ?b \<noteq> tab)"
    by (rule hd_dropWhile)
  with ne obtain rest where b: "?b = tab # rest"
    by (cases ?b) auto
  have l: "l = ?a @ tab # rest"
    using takeWhile_dropWhile_id [of "\<lambda>c. c \<noteq> tab" l] b by simp
  have a: "tab \<notin> set ?a"
    by (auto dest: set_takeWhileD)
  have "count_list l tab = count_list ?a tab + 1 + count_list rest tab"
    by (subst l) simp
  with assms(2) have "count_list rest tab = 0"
    by simp
  then have r: "tab \<notin> set rest"
    by (simp add: count_list_0_iff)
  have "split_char tab l = ?a # split_char tab rest"
    by (subst l) (rule split_char_append [OF a])
  also have "\<dots> = [?a, rest]"
    using r by (simp add: split_char_no_sep)
  finally show ?thesis
    by (simp add: row_id_def row_status_def b)
qed

lemma device_not_space: "\<not> is_space (CHR ''d'')"
  by (simp add: is_space_def whitespace_chars_def)

lemma strip_device_row:
  assumes "tab \<in> set l" and "row_status l = ''device''"
  shows "strip l \<noteq> []"
proof -
  from assms(2) have "CHR ''d'' \<in> set (drop 1 (dropWhile (\<lambda>c. c \<noteq> tab) l))"
    by (simp add: row_status_def)
  then have "CHR ''d'' \<in> set l"
    by (meson in_set_dropD set_dropWhileD)
  then show ?thesis
    using device_not_space by (rule strip_nonempty)
qed

lemma parse_device_lines_rows:
  "\<forall>l\<in>set rows. count_list l tab \<le> 1 \<Longrightarrow>
   parse_device_lines run self rows devices = Inr (devices @ ready_rows run self rows)"
proof (induction rows arbitrary: devices)
  case Nil
  then show ?case by (simp add: ready_rows_def)
next
  case (Cons l rows)
  from Cons.prems have one: "count_list l tab \<le> 1"
    and rest: "\<forall>l\<in>set rows. count_list l tab \<le> 1" by simp_all
  note ih = Cons.IH [OF rest]
  show ?case
  proof (cases "tab \<in> set l")
    case False
    then show ?thesis
      by (simp add: ih ready_rows_def)
  next
    case True
    note sp = split_char_row [OF True one]
    show ?thesis
    proof (cases "row_status l = ''device''")
      case dev: True
      from strip_device_row [OF True dev] True dev show ?thesis
        by (simp add: sp ih ready_rows_def)
    next
      case False
      with True show ?thesis
        by (simp add: sp ih ready_rows_def)
    qed
  qed
qed

text \<open>
  Claim C7, as the code has it. The claim covers every bridge output with a header
  line. When a row has three tab-separated fields, the tuple assignment raises, the
  outer handler returns the empty list, and the ready device of the row before it is
  lost.
\<close>

theorem get_connected_devices_three_fields_counterexample:
  "split_char nl (strip (stdout (projr (three_field_bridge [''adb'', ''devices''])))) =
     [''List of devices attached'', ''emulator-5554'' @ [tab] @ ''device'',
      ''R58M'' @ [tab] @ ''device'' @ [tab] @ ''usb''] \<and>
   returncode (projr (three_field_bridge [''adb'', ''devices''])) = 0 \<and>
   get_connected_devices three_field_bridge (DeviceRegistration_init ''adb'') = []"
  by (simp add: get_connected_devices_def three_field_bridge_def DeviceRegistration_init_def
      strip_def is_space_def whitespace_chars_def)

text \<open>
  Claim C7, amended. When the bridge command exits with code 0 and its output, stripped
  of surrounding whitespace, is a header line followed by lines that each hold at most
  one tab, \<open>get_connected_devices\<close> returns exactly the rows \<open>id<TAB>device\<close>, in order,
  and nothing for the header or for a row with any other status. For the stub with two
  ready rows and one offline row it returns the two ready devices.
\<close>

theorem get_connected_devices_ready_rows:
  assumes "run [adb_path self, ''devices''] = Inr result"
    and "returncode result = 0"
    and "strip (stdout result) = header @ concat (map (\<lambda>l. nl # l) rows)"
    and "nl \<notin> set header"
    and "\<forall>l\<in>set rows. nl \<notin> set l \<and> count_list l tab \<le> 1"
  shows "get_connected_devices run self = ready_rows run self rows"
proof -
  from assms(4,5) have "split_char nl (strip (stdout result)) = header # rows"
    unfolding assms(3) by (intro split_char_lines) auto
  moreover from assms(5) have "parse_device_lines run self rows [] = Inr ([] @ ready_rows run self rows)"
    by (intro parse_device_lines_rows) auto
  ultimately show ?thesis
    using assms(1,2) by (simp add: get_connected_devices_def)
qed

theorem get_connected_devices_ready_rows_witness:
  "get_connected_devices two_ready_bridge (DeviceRegistration_init ''adb'') =
     [\<lparr> device_id = ''emulator-5554'', device_status = ''device'', device_type = ''emulator'' \<rparr>,
      \<lparr> device_id = ''R58M'', device_status = ''device'', device_type = ''physical'' \<rparr>]"
proof -
  let ?self = "DeviceRegistration_init ''adb''"
  let ?result = "\<lparr> returncode = 0,
                   stdout = ''List of devices attached'' @ [nl] @
                            ''emulator-5554'' @ [tab] @ ''device'' @ [nl] @
                            ''R58M'' @ [tab] @ ''device'' @ [nl] @
                            ''ZX1G'' @ [tab] @ ''offline'' @ [nl, nl],
                   stderr = [] \<rparr>"
  let ?rows = "[''emulator-5554'' @ [tab] @ ''device'', ''R58M'' @ [tab] @ ''device'',
                ''ZX1G'' @ [tab] @ ''offline'']"
  have h1: "two_ready_bridge [adb_path ?self, ''devices''] = Inr ?result"
    by (simp add: two_ready_bridge_def DeviceRegistration_init_def)
  have h2: "returncode ?result = 0"
    by simp
  have h3: "strip (stdout ?result) =
              ''List of devices attached'' @ concat (map (\<lambda>l. nl # l) ?rows)"
    by (simp add: strip_def is_space_def whitespace_chars_def)
  have h4: "nl \<notin> set ''List of devices attached''"
    by simp
  have h5: "\<forall>l\<in>set ?rows. nl \<notin> set l \<and> count_list l tab \<le> 1"
    by simp
  have ty: "get_device_type two_ready_bridge ?self ''R58M'' = ''physical''"
    by (simp add: get_device_type_def startswith_def two_ready_bridge_def
        DeviceRegistration_init_def strip_def is_space_def whitespace_chars_def lower_def
        lower_char_def)
  have ty2: "get_device_type two_ready_bridge ?self ''emulator-5554'' = ''emulator''"
    by (simp add: get_device_type_def startswith_def)
  from get_connected_devices_ready_rows
    [of two_ready_bridge ?self ?result "''List of devices attached''" ?rows, OF h1 h2 h3 h4 h5]
  show ?thesis
    by (simp add: ready_rows_def row_id_def row_status_def ty ty2)
qed

section \<open>Properties of the remote controllers\<close>

lemma abstractmethods_remote:
  "abstractmethods ClsGBOXDeviceController = [''press_key'', ''get_screen_info'']"
  "abstractmethods ClsGBOXLocalDeviceController = [''press_key'', ''get_screen_info'']"
  by (simp_all add: abstractmethods_def)

lemma super_init_remote:
  "super_init ClsGBOXDeviceController [d] =
     Inl (TypeError ''object.__init__() takes exactly one argument (the instance to initialize)'')"
  "super_init ClsGBOXLocalDeviceController [d] =
     Inl (TypeError ''object.__init__() takes exactly one argument (the instance to initialize)'')"
  by (simp_all add: super_init_def find_method_def object_init_def)

text \<open>
  Claim C2. For every SDK, environment value, device id and API key argument, building
  either remote controller raises \<open>TypeError\<close> and makes no backend call: both classes
  leave \<open>press_key\<close> and \<open>get_screen_info\<close> abstract, so the class call refuses the
  instance; and the base class defines no \<open>__init__\<close>, so \<open>__init__\<close> itself would
  stop at \<open>super().__init__(device_id)\<close> with \<open>TypeError\<close>, again before any backend
  call.
\<close>

theorem remote_controller_never_constructed:
  "GBOXDeviceController_new sdk getenv dev_id api_key =
     (Inl (TypeError (''Can'' @ [CHR 0x27] @ ''t instantiate abstract class GBOXDeviceController'')), []) \<and>
   GBOXLocalDeviceController_new sdk getenv dev_id api_key =
     (Inl (TypeError (''Can'' @ [CHR 0x27] @ ''t instantiate abstract class GBOXLocalDeviceController'')), []) \<and>
   abstractmethods ClsGBOXDeviceController = [''press_key'', ''get_screen_info''] \<and>
   abstractmethods ClsGBOXLocalDeviceController = [''press_key'', ''get_screen_info''] \<and>
   find_method ClsDeviceController ''__init__'' = None \<and>
   remote_controller_init ClsGBOXDeviceController sdk getenv dev_id api_key =
     (Inl (TypeError ''object.__init__() takes exactly one argument (the instance to initialize)''), []) \<and>
   remote_controller_init ClsGBOXLocalDeviceController sdk getenv dev_id api_key =
     (Inl (TypeError ''object.__init__() takes exactly one argument (the instance to initialize)''), [])"
  by (simp add: GBOXDeviceController_new_def GBOXLocalDeviceController_new_def new_instance_def
      abstractmethods_remote super_init_remote remote_controller_init_def find_method_def)

text \<open>
  Claim C1, on the code. The claim expects the configuration error (\<open>ValueError\<close>,
  as the module's own self-test does) when a remote controller is built without an API
  key, neither as argument nor in the environment. Both classes raise \<open>TypeError\<close>
  instead: the instance is refused before \<open>__init__\<close> reaches the key check.
\<close>

theorem missing_api_key_raises_type_error:
  "GBOXDeviceController_new sdk None ''test_device'' None =
     (Inl (TypeError (''Can'' @ [CHR 0x27] @ ''t instantiate abstract class GBOXDeviceController'')), []) \<and>
   GBOXDeviceController_new sdk None ''test_device'' None \<noteq>
     (Inl (ValueError ''GBOX_API_KEY environment variable required''), []) \<and>
   GBOXLocalDeviceController_new sdk None ''test_device'' None =
     (Inl (TypeError (''Can'' @ [CHR 0x27] @ ''t instantiate abstract class GBOXLocalDeviceController'')), []) \<and>
   GBOXLocalDeviceController_new sdk None ''test_device'' None \<noteq>
     (Inl (ValueError ''GBOX_API_KEY environment variable required''), [])"
  by (simp add: GBOXDeviceController_new_def GBOXLocalDeviceController_new_def new_instance_def
      abstractmethods_remote)

text \<open>
  Claim C3, on the code. The claim expects a close operation on each remote controller
  (the integration test calls \<open>close_box()\<close> on one). Neither class nor its base
  defines \<open>close\<close> or \<open>close_box\<close>: looking either name up raises \<open>AttributeError\<close>.
\<close>

theorem remote_controller_has_no_close:
  "getattr_method ClsGBOXDeviceController ''close'' =
     Inl (AttributeError (quoted ''GBOXDeviceController'' @ '' object has no attribute '' @ quoted ''close'')) \<and>
   getattr_method ClsGBOXDeviceController ''close_box'' =
     Inl (AttributeError (quoted ''GBOXDeviceController'' @ '' object has no attribute '' @ quoted ''close_box'')) \<and>
   getattr_method ClsGBOXLocalDeviceController ''close'' =
     Inl (AttributeError (quoted ''GBOXLocalDeviceController'' @ '' object has no attribute '' @ quoted ''close'')) \<and>
   getattr_method ClsGBOXLocalDeviceController ''close_box'' =
     Inl (AttributeError (quoted ''GBOXLocalDeviceController'' @ '' object has no attribute '' @ quoted ''close_box''))"
  by (simp add: getattr_method_def find_method_def)

end
